theory Spec2Isabelle
  imports Main
begin

section \<open>JavaScript values\<close>

text \<open>
  The route handlers of \<^verbatim>\<open>server/routes.ts\<close> work on loosely typed data: the
  \<^verbatim>\<open>config\<close> of a connection is a \<^verbatim>\<open>Record<string, any>\<close> read from a JSON column, and
  every decision of the handlers is a truthiness test, a strict comparison or a template
  literal over such values. They are modelled by a datatype of JSON-like values. Numbers
  are integers (printed in decimal); objects are association lists in insertion order.
\<close>

datatype jsval =
    JUndef
  | JNull
  | JBool bool
  | JNum int
  | JStr string
  | JArr "jsval list"
  | JObj "(string \<times> jsval) list"

text \<open>The test of \<^verbatim>\<open>if (v)\<close>, \<^verbatim>\<open>!v\<close>, \<^verbatim>\<open>a || b\<close> and \<^verbatim>\<open>a && b\<close>.\<close>

fun truthy :: "jsval \<Rightarrow> bool" where
  "truthy JUndef = False"
| "truthy JNull = False"
| "truthy (JBool b) = b"
| "truthy (JNum n) = (n \<noteq> 0)"
| "truthy (JStr s) = (s \<noteq> [])"
| "truthy (JArr xs) = True"
| "truthy (JObj kvs) = True"

definition js_or :: "jsval \<Rightarrow> jsval \<Rightarrow> jsval" where
  "js_or a b = (if truthy a then a else b)"

fun nullish :: "jsval \<Rightarrow> bool" where
  "nullish JUndef = True"
| "nullish JNull = True"
| "nullish v = False"

text \<open>
  Property read \<^verbatim>\<open>v.k\<close> (and \<^verbatim>\<open>v?.k\<close>) for the keys the handlers use. None of them is a
  built-in property of a string, number, boolean or array, so the read gives
  \<^verbatim>\<open>undefined\<close> on everything but an object that has the key. Every plain read in the
  handlers that is modelled by \<open>get\<close> is guarded by a truthiness test of the receiver;
  the one unguarded read (\<^verbatim>\<open>row.table_name\<close>) is modelled with its TypeError.
\<close>

fun get :: "jsval \<Rightarrow> string \<Rightarrow> jsval" where
  "get (JObj kvs) k = (case map_of kvs k of Some v \<Rightarrow> v | None \<Rightarrow> JUndef)"
| "get v k = JUndef"

text \<open>
  Decimal rendering of a number, as \<^verbatim>\<open>String(n)\<close> gives for an integer below \<open>2^53\<close> in
  magnitude. Larger numbers, which JavaScript prints by their shortest round-trip digits
  (and from \<open>10^21\<close> on in exponent form), are beyond the ids, table names and credentials
  the handlers render.
\<close>

fun show_nat :: "nat \<Rightarrow> string" where
  "show_nat n =
     (if n < 10 then [''0123456789'' ! n]
      else show_nat (n div 10) @ [''0123456789'' ! (n mod 10)])"

declare show_nat.simps [simp del]

definition show_int :: "int \<Rightarrow> string" where
  "show_int i = (if i < 0 then CHR ''-'' # show_nat (nat (- i)) else show_nat (nat i))"

fun join_comma :: "string list \<Rightarrow> string" where
  "join_comma [] = []"
| "join_comma [s] = s"
| "join_comma (s # t # ss) = s @ '','' @ join_comma (t # ss)"

text \<open>
  The string a template literal \<^verbatim>\<open>`${v}`\<close> puts in place of \<open>v\<close>: a string as it is,
  \<^verbatim>\<open>undefined\<close> and \<^verbatim>\<open>null\<close> by name, an array as its elements joined by commas (with
  \<^verbatim>\<open>null\<close> and \<^verbatim>\<open>undefined\<close> elements empty), an object as \<^verbatim>\<open>[object Object]\<close>.
\<close>

fun to_str :: "jsval \<Rightarrow> string" where
  "to_str JUndef = ''undefined''"
| "to_str JNull = ''null''"
| "to_str (JBool b) = (if b then ''true'' else ''false'')"
| "to_str (JNum n) = show_int n"
| "to_str (JStr s) = s"
| "to_str (JArr xs) = join_comma (map (\<lambda>x. if nullish x then [] else to_str x) xs)"
| "to_str (JObj kvs) = ''[object Object]''"

text \<open>
  Object spread \<^verbatim>\<open>{...v}\<close>: the own enumerable properties of an object, the indexed
  elements of an array or characters of a string, nothing for the other values.
\<close>

fun spread :: "jsval \<Rightarrow> (string \<times> jsval) list" where
  "spread (JObj kvs) = kvs"
| "spread (JArr xs) = zip (map show_nat [0..<length xs]) xs"
| "spread (JStr s) = zip (map show_nat [0..<length s]) (map (\<lambda>c. JStr [c]) s)"
| "spread v = []"

text \<open>\<^verbatim>\<open>{...o, k: v}\<close>: an existing key keeps its place and takes the new value.\<close>

fun set_prop :: "(string \<times> jsval) list \<Rightarrow> string \<Rightarrow> jsval \<Rightarrow> (string \<times> jsval) list" where
  "set_prop [] k v = [(k, v)]"
| "set_prop ((k', v') # kvs) k v =
     (if k' = k then (k, v) # kvs else (k', v') # set_prop kvs k v)"

section \<open>Base64\<close>

text \<open>
  \<^verbatim>\<open>Buffer.from(s).toString('base64')\<close>: the standard alphabet with \<^verbatim>\<open>=\<close> padding over
  the bytes of the string. A \<open>string\<close> here is the byte sequence of the text.
\<close>

definition b64_digit :: "nat \<Rightarrow> char" where
  "b64_digit n =
     ''ABCDEFGHIJKLMNOPQRSTUVWXYZabcdefghijklmnopqrstuvwxyz0123456789+/'' ! n"

fun base64_bytes :: "nat list \<Rightarrow> string" where
  "base64_bytes [] = []"
| "base64_bytes [a] =
     [b64_digit (a div 4), b64_digit ((a mod 4) * 16), CHR ''='', CHR ''='']"
| "base64_bytes [a, b] =
     [b64_digit (a div 4), b64_digit ((a mod 4) * 16 + b div 16),
      b64_digit ((b mod 16) * 4), CHR ''='']"
| "base64_bytes (a # b # c # rest) =
     [b64_digit (a div 4), b64_digit ((a mod 4) * 16 + b div 16),
      b64_digit ((b mod 16) * 4 + c div 64), b64_digit (c mod 64)] @ base64_bytes rest"

definition base64 :: "string \<Rightarrow> string" where
  "base64 s = base64_bytes (map of_char s)"

section \<open>Records, the outside world and the trace of a handler\<close>

text \<open>
  The rows of the dataset and connection registries. Their declarations are not among
  the sources, so every field is a JavaScript value and the handlers' own tests
  (\<^verbatim>\<open>=== null\<close>, truthiness, \<^verbatim>\<open>=== "sql"\<close>) decide what they hold.
\<close>

record dataset =
  ds_id :: jsval
  ds_connectionId :: jsval
  ds_query :: jsval
  ds_config :: jsval

record connection =
  conn_id :: jsval
  conn_type :: jsval
  conn_config :: jsval

text \<open>A thrown \<^verbatim>\<open>Error\<close> is its \<^verbatim>\<open>message\<close>.\<close>

type_synonym exn = string

record http_response =
  resp_ok :: bool
  resp_status :: int
  resp_statusText :: string
  resp_json :: "exn + jsval"

record csv_options =
  delimiter :: jsval
  hasHeaders :: bool
  quoteChar :: jsval
  trimFields :: bool

text \<open>\<^verbatim>\<open>fetchOptions\<close>; a field that was never assigned is \<^verbatim>\<open>undefined\<close>.\<close>

record fetch_options =
  fo_headers :: jsval
  fo_method :: jsval
  fo_body :: jsval

text \<open>
  Everything a handler awaits or calls outside the file is a field of the environment:
  the storage layer, the data adapters (\<^verbatim>\<open>parseCSV\<close>, \<^verbatim>\<open>extractRESTData\<close>), \<^verbatim>\<open>fetch\<close>,
  \<^verbatim>\<open>JSON.stringify\<close>, and the query of a \<^verbatim>\<open>pg\<close> pool opened on a connection string. A
  call either throws (\<open>Inl\<close>) or returns (\<open>Inr\<close>). The body of
  \<^verbatim>\<open>buildPgConnectionString\<close> is not among the sources; it is a field too, returning a
  string or \<^verbatim>\<open>null\<close>. Creating a pool, \<^verbatim>\<open>tempPool.end()\<close>, the dynamic imports,
  \<^verbatim>\<open>console.log\<close> and \<^verbatim>\<open>res.status(..).json(..)\<close> are taken not to throw.
\<close>

record env =
  getDataset :: "jsval \<Rightarrow> exn + dataset option"
  getConnection :: "jsval \<Rightarrow> exn + connection option"
  parseCSV :: "jsval \<Rightarrow> csv_options \<Rightarrow> exn + jsval"
  fetch :: "jsval \<Rightarrow> fetch_options \<Rightarrow> exn + http_response"
  extractRESTData :: "jsval \<Rightarrow> jsval \<Rightarrow> exn + jsval"
  JSON_stringify :: "jsval \<Rightarrow> string"
  buildPgConnectionString :: "jsval \<Rightarrow> jsval"
  pool_query :: "jsval \<Rightarrow> jsval \<Rightarrow> jsval list \<Rightarrow> exn + jsval list"

text \<open>
  A handler is modelled by the sequence of its effects, in the order the code performs
  them: the calls above, the opening and closing of the temporary pool, and the response
  it sends. The handler has returned when the sequence ends.
\<close>

datatype event =
    GetDataset jsval
  | GetConnection jsval
  | ParseCSV jsval csv_options
  | Fetch jsval fetch_options
  | ReadJson
  | ExtractRESTData jsval jsval
  | BuildConnStr jsval
  | PoolOpen jsval
  | PoolQuery jsval jsval "jsval list"
  | PoolEnd jsval
  | Respond nat jsval

definition message :: "string \<Rightarrow> jsval" where
  "message m = JObj [(''message'', JStr m)]"

definition message_error :: "string \<Rightarrow> exn \<Rightarrow> jsval" where
  "message_error m e = JObj [(''message'', JStr m), (''error'', JStr e)]"

fun is_string :: "jsval \<Rightarrow> bool" where
  "is_string (JStr s) = True"
| "is_string v = False"

text \<open>\<^verbatim>\<open>typeof v === 'object'\<close> for a truthy \<open>v\<close>.\<close>

fun is_object :: "jsval \<Rightarrow> bool" where
  "is_object (JObj kvs) = True"
| "is_object (JArr xs) = True"
| "is_object v = False"

section \<open>Resolving the connection string\<close>

text \<open>
  The block \<^verbatim>\<open>let connectionString = ''; if (config.connectionString) {..} else {..}\<close>
  stands with the same text in the data, table-schema, tables and execute-query
  handlers. It gives the effects it performed and the connection string, or \<open>None\<close>
  when it has sent the 400 response and the handler returns.
\<close>

definition resolve_connection_string :: "env \<Rightarrow> jsval \<Rightarrow> event list \<times> jsval option" where
  "resolve_connection_string e config =
     (if truthy (get config ''connectionString'') then
        ([], Some (get config ''connectionString''))
      else
        (let connStr = buildPgConnectionString e config in
         if \<not> truthy connStr then
           ([BuildConnStr config,
             Respond 400 (message
               ''Connection configuration is incomplete. Database and user/username are required.'')],
            None)
         else ([BuildConnStr config], Some connStr)))"

text \<open>
  Around that block the four handlers agree as well: \<^verbatim>\<open>const config = connection.config\<close>,
  the 400 response when it is missing, the block above, and then the creation of the
  pool. What a handler does from the creation of the pool on is the continuation \<open>k\<close>,
  given the connection string.
\<close>

definition with_connection_string :: "env \<Rightarrow> connection \<Rightarrow> (jsval \<Rightarrow> event list) \<Rightarrow> event list" where
  "with_connection_string e connection k =
     (let config = conn_config connection in
      if \<not> truthy config then
        [Respond 400 (message ''Connection configuration is missing'')]
      else
        (case resolve_connection_string e config of
           (evs, None) \<Rightarrow> evs
         | (evs, Some connectionString) \<Rightarrow> evs @ k connectionString))"

section \<open>GET /datasets/:id/data\<close>

definition data_csv :: "env \<Rightarrow> connection \<Rightarrow> event list" where
  "data_csv e connection =
     (let config = conn_config connection;
          csvContent = js_or (get config ''csvData'') (get config ''fileContent'')
      in
      if \<not> truthy config \<or> \<not> truthy csvContent then
        [Respond 400 (message ''No CSV data found in connection'')]
      else
        (let options = \<lparr>delimiter = js_or (get config ''delimiter'') (JStr '',''),
                        hasHeaders = (get config ''hasHeaders'' \<noteq> JBool False),
                        quoteChar = js_or (get config ''quoteChar'') (JStr [CHR 0x22]),
                        trimFields = (get config ''trimFields'' \<noteq> JBool False)\<rparr>
         in
         ParseCSV csvContent options #
         (case parseCSV e csvContent options of
            Inl err \<Rightarrow> [Respond 500 (message ''Internal server error'')]
          | Inr data \<Rightarrow> [Respond 200 data])))"

text \<open>The request options the rest branch builds before it calls \<^verbatim>\<open>fetch\<close>.\<close>

definition basic_credentials :: "jsval \<Rightarrow> string" where
  "basic_credentials auth =
     base64 (to_str (get auth ''username'') @ '':'' @ to_str (get auth ''password''))"

definition rest_fetch_options :: "env \<Rightarrow> jsval \<Rightarrow> fetch_options" where
  "rest_fetch_options e config =
     (let headers0 = (if truthy (get config ''headers'') then get config ''headers'' else JUndef);
          auth = get config ''auth'';
          headers1 =
            (if truthy auth then
               (if get auth ''type'' = JStr ''basic'' then
                  JObj (set_prop (spread headers0) ''Authorization''
                          (JStr (''Basic '' @ basic_credentials auth)))
                else if get auth ''type'' = JStr ''bearer'' \<and> truthy (get auth ''token'') then
                  JObj (set_prop (spread headers0) ''Authorization''
                          (JStr (''Bearer '' @ to_str (get auth ''token''))))
                else headers0)
             else headers0);
          method = js_or (get config ''method'') (JStr ''GET'')
      in
      if method \<in> set [JStr ''POST'', JStr ''PUT'', JStr ''PATCH''] \<and> truthy (get config ''body'') then
        \<lparr>fo_headers = JObj (set_prop (spread headers1) ''Content-Type'' (JStr ''application/json'')),
         fo_method = method,
         fo_body = JStr (JSON_stringify e (get config ''body''))\<rparr>
      else
        \<lparr>fo_headers = headers1, fo_method = method, fo_body = JUndef\<rparr>)"

definition rest_failed :: "exn \<Rightarrow> event list" where
  "rest_failed err = [Respond 400 (message_error ''REST API request failed'' err)]"

definition data_rest :: "env \<Rightarrow> connection \<Rightarrow> event list" where
  "data_rest e connection =
     (let config = conn_config connection in
      if \<not> truthy config \<or> \<not> truthy (get config ''url'') then
        [Respond 400 (message ''REST connection URL is missing'')]
      else
        (let fetchOptions = rest_fetch_options e config in
         Fetch (get config ''url'') fetchOptions #
         (case fetch e (get config ''url'') fetchOptions of
            Inl err \<Rightarrow> rest_failed err
          | Inr response \<Rightarrow>
              if \<not> resp_ok response then
                rest_failed (''API returned '' @ show_int (resp_status response) @ '': ''
                             @ resp_statusText response)
              else
                ReadJson #
                (case resp_json response of
                   Inl err \<Rightarrow> rest_failed err
                 | Inr jsonResponse \<Rightarrow>
                     ExtractRESTData jsonResponse (get config ''resultPath'') #
                     (case extractRESTData e jsonResponse (get config ''resultPath'') of
                        Inl err \<Rightarrow> rest_failed err
                      | Inr data \<Rightarrow> [Respond 200 data])))))"

text \<open>The statement the sql branch runs (\<^verbatim>\<open>// Determine which query to execute\<close>).\<close>

definition select_sql_query :: "dataset \<Rightarrow> jsval \<Rightarrow> jsval" where
  "select_sql_query ds customQuery =
     (let fallback = JStr ''SELECT * FROM users LIMIT 100'';
          sqlQuery =
            (if truthy (ds_query ds) then ds_query ds
             else if truthy (ds_config ds) \<and> is_object (ds_config ds) then
               (if truthy (get (ds_config ds) ''table'') then
                  JStr (''SELECT * FROM '' @ to_str (get (ds_config ds) ''table'') @ '' LIMIT 100'')
                else fallback)
             else fallback)
      in
      if truthy customQuery \<and> is_string customQuery then customQuery else sqlQuery)"

text \<open>
  From \<^verbatim>\<open>new Pool({ connectionString })\<close> on: the statement is run inside
  \<^verbatim>\<open>try { .. } finally { await tempPool.end() }\<close>, so the pool is ended before the
  \<^verbatim>\<open>catch\<close> answers a failure and before the rows are sent at the end of the handler.
\<close>

definition data_sql_pool :: "env \<Rightarrow> dataset \<Rightarrow> jsval \<Rightarrow> jsval \<Rightarrow> event list" where
  "data_sql_pool e ds customQuery connectionString =
     (let sqlQuery = select_sql_query ds customQuery in
      [PoolOpen connectionString, PoolQuery connectionString sqlQuery []] @
      (case pool_query e connectionString sqlQuery [] of
         Inl err \<Rightarrow>
           [PoolEnd connectionString,
            Respond 400 (message_error ''SQL query execution failed'' err)]
       | Inr rows \<Rightarrow>
           [PoolEnd connectionString, Respond 200 (JArr rows)]))"

definition data_sql :: "env \<Rightarrow> dataset \<Rightarrow> connection \<Rightarrow> jsval \<Rightarrow> event list" where
  "data_sql e ds connection customQuery =
     with_connection_string e connection (data_sql_pool e ds customQuery)"

text \<open>
  The handler; \<open>ident\<close> is the value of \<^verbatim>\<open>Number(req.params.id)\<close> and \<open>customQuery\<close> that of
  \<^verbatim>\<open>req.query.customQuery\<close>.
\<close>

definition dataset_data :: "env \<Rightarrow> jsval \<Rightarrow> jsval \<Rightarrow> event list" where
  "dataset_data e ident customQuery =
     GetDataset ident #
     (case getDataset e ident of
        Inl err \<Rightarrow> [Respond 500 (message ''Internal server error'')]
      | Inr None \<Rightarrow> [Respond 404 (message ''Dataset not found'')]
      | Inr (Some ds) \<Rightarrow>
          if ds_connectionId ds = JNull then
            [Respond 400 (message ''Dataset has no associated connection'')]
          else
            GetConnection (ds_connectionId ds) #
            (case getConnection e (ds_connectionId ds) of
               Inl err \<Rightarrow> [Respond 500 (message ''Internal server error'')]
             | Inr None \<Rightarrow> [Respond 404 (message ''Connection not found'')]
             | Inr (Some connection) \<Rightarrow>
                 if conn_type connection = JStr ''csv'' then data_csv e connection
                 else if conn_type connection = JStr ''rest'' then data_rest e connection
                 else if conn_type connection = JStr ''sql'' then
                   data_sql e ds connection customQuery
                 else [Respond 200 (JArr [])]))"

section \<open>The other handlers that open a temporary pool\<close>

definition unlines :: "string list \<Rightarrow> string" where
  "unlines ls = concat (map (\<lambda>l. l @ [CHR 0x0A]) ls)"

definition schemaQuery :: string where
  "schemaQuery = unlines
     [[],
      ''            SELECT '',
      ''              column_name as name, '',
      ''              data_type as type'',
      ''            FROM '',
      ''              information_schema.columns '',
      ''            WHERE '',
      ''              table_name = $1'',
      ''            ORDER BY '',
      ''              ordinal_position''] @ ''          ''"

definition tablesQuery :: string where
  "tablesQuery = unlines
     [[],
      ''            SELECT '',
      ''              table_name'',
      ''            FROM '',
      ''              information_schema.tables '',
      ''            WHERE '',
      ''              table_schema = '' @ [CHR 0x27] @ ''public'' @ [CHR 0x27],
      ''              AND table_type = '' @ [CHR 0x27] @ ''BASE TABLE'' @ [CHR 0x27],
      ''            ORDER BY '',
      ''              table_name''] @ ''          ''"

definition must_be_sql :: jsval where
  "must_be_sql = message (''Connection must be of type '' @ [CHR 0x27] @ ''sql'' @ [CHR 0x27])"

text \<open>The outer \<^verbatim>\<open>catch\<close> of the table-schema and tables handlers.\<close>

definition internal_error :: "exn \<Rightarrow> jsval" where
  "internal_error err = message (if err \<noteq> [] then err else ''Internal server error'')"

text \<open>POST /connections/table-schema, on \<^verbatim>\<open>const { connectionId, table } = req.body\<close>.\<close>

text \<open>
  In this handler and the next two the rows are sent by a \<^verbatim>\<open>return\<close> inside the
  \<^verbatim>\<open>try\<close>: the response goes out first and the \<^verbatim>\<open>finally\<close> ends the pool after it.
\<close>

definition table_schema_pool :: "env \<Rightarrow> jsval \<Rightarrow> jsval \<Rightarrow> event list" where
  "table_schema_pool e table connectionString =
     [PoolOpen connectionString, PoolQuery connectionString (JStr schemaQuery) [table]] @
     (case pool_query e connectionString (JStr schemaQuery) [table] of
        Inl err \<Rightarrow>
          [PoolEnd connectionString,
           Respond 400 (message_error ''Failed to retrieve table schema'' err)]
      | Inr rows \<Rightarrow> [Respond 200 (JArr rows), PoolEnd connectionString])"

definition table_schema :: "env \<Rightarrow> jsval \<Rightarrow> jsval \<Rightarrow> event list" where
  "table_schema e connectionId table =
     (if \<not> truthy connectionId then
        [Respond 400 (message ''Connection ID is required'')]
      else if \<not> truthy table \<or> \<not> is_string table then
        [Respond 400 (message ''Table name is required'')]
      else
        GetConnection connectionId #
        (case getConnection e connectionId of
           Inl err \<Rightarrow> [Respond 500 (internal_error err)]
         | Inr None \<Rightarrow> [Respond 404 (message ''Connection not found'')]
         | Inr (Some connection) \<Rightarrow>
             if conn_type connection \<noteq> JStr ''sql'' then [Respond 400 must_be_sql]
             else with_connection_string e connection (table_schema_pool e table)))"

text \<open>
  \<^verbatim>\<open>result.rows.map((row: any) => row.table_name)\<close> throws a TypeError at the first row
  that is \<^verbatim>\<open>null\<close> or \<^verbatim>\<open>undefined\<close>.
\<close>

definition table_names :: "jsval list \<Rightarrow> exn + jsval list" where
  "table_names rows =
     (case find nullish rows of
        Some r \<Rightarrow>
          Inl (''Cannot read properties of '' @ to_str r @ '' (reading '' @ [CHR 0x27]
               @ ''table_name'' @ [CHR 0x27] @ '')'')
      | None \<Rightarrow> Inr (map (\<lambda>row. get row ''table_name'') rows))"

text \<open>GET /connections/:id/tables; \<open>ident\<close> is the value of \<^verbatim>\<open>Number(req.params.id)\<close>.\<close>

definition connection_tables_pool :: "env \<Rightarrow> jsval \<Rightarrow> event list" where
  "connection_tables_pool e connectionString =
     [PoolOpen connectionString, PoolQuery connectionString (JStr tablesQuery) []] @
     (case pool_query e connectionString (JStr tablesQuery) [] of
        Inl err \<Rightarrow>
          [PoolEnd connectionString,
           Respond 400 (message_error ''Failed to retrieve database tables'' err)]
      | Inr rows \<Rightarrow>
          (case table_names rows of
             Inl err \<Rightarrow>
               [PoolEnd connectionString,
                Respond 400 (message_error ''Failed to retrieve database tables'' err)]
           | Inr tables \<Rightarrow> [Respond 200 (JArr tables), PoolEnd connectionString]))"

definition connection_tables :: "env \<Rightarrow> jsval \<Rightarrow> event list" where
  "connection_tables e ident =
     GetConnection ident #
     (case getConnection e ident of
        Inl err \<Rightarrow> [Respond 500 (internal_error err)]
      | Inr None \<Rightarrow> [Respond 404 (message ''Connection not found'')]
      | Inr (Some connection) \<Rightarrow>
          if conn_type connection \<noteq> JStr ''sql'' then [Respond 400 must_be_sql]
          else with_connection_string e connection (connection_tables_pool e))"

text \<open>POST /connections/execute-query, on \<^verbatim>\<open>const { connectionId, query } = req.body\<close>.\<close>

definition execute_query_pool :: "env \<Rightarrow> jsval \<Rightarrow> jsval \<Rightarrow> event list" where
  "execute_query_pool e query connectionString =
     [PoolOpen connectionString, PoolQuery connectionString query []] @
     (case pool_query e connectionString query [] of
        Inl err \<Rightarrow>
          [PoolEnd connectionString,
           Respond 400 (message_error ''SQL query execution failed'' err)]
      | Inr rows \<Rightarrow> [Respond 200 (JArr rows), PoolEnd connectionString])"

definition execute_query :: "env \<Rightarrow> jsval \<Rightarrow> jsval \<Rightarrow> event list" where
  "execute_query e connectionId query =
     (if \<not> truthy connectionId then
        [Respond 400 (message ''Connection ID is required'')]
      else if \<not> truthy query \<or> \<not> is_string query then
        [Respond 400 (message ''Valid SQL query is required'')]
      else
        GetConnection connectionId #
        (case getConnection e connectionId of
           Inl err \<Rightarrow> [Respond 500 (message ''Internal server error'')]
         | Inr None \<Rightarrow> [Respond 404 (message ''Connection not found'')]
         | Inr (Some connection) \<Rightarrow>
             if conn_type connection \<noteq> JStr ''sql'' then [Respond 400 must_be_sql]
             else with_connection_string e connection (execute_query_pool e query)))"

section \<open>Executing a query against a dataset\<close>

text \<open>
  Of the handler that runs a request's query against a dataset, the sources hold the part
  from the creation of the pool on: it is given the dataset, the request's \<open>query\<close> and
  the connection string resolved before.
\<close>

definition dataset_cte_query :: "dataset \<Rightarrow> jsval \<Rightarrow> jsval" where
  "dataset_cte_query ds query =
     (if truthy (ds_query ds) then
        JStr (''WITH dataset_'' @ to_str (ds_id ds) @ '' AS ('' @ to_str (ds_query ds) @ '') ''
              @ to_str query)
      else query)"

definition execute_dataset_query :: "env \<Rightarrow> dataset \<Rightarrow> jsval \<Rightarrow> jsval \<Rightarrow> event list" where
  "execute_dataset_query e ds query connectionString =
     (let sqlQuery = dataset_cte_query ds query in
      [PoolOpen connectionString, PoolQuery connectionString sqlQuery []] @
      (case pool_query e connectionString sqlQuery [] of
         Inl err \<Rightarrow>
           [PoolEnd connectionString,
            Respond 400 (message_error ''SQL query execution failed'' err)]
       | Inr rows \<Rightarrow> [Respond 200 (JArr rows), PoolEnd connectionString]))"

section \<open>Reading a trace\<close>

fun is_pool_event :: "event \<Rightarrow> bool" where
  "is_pool_event (PoolOpen c) = True"
| "is_pool_event (PoolQuery c q ps) = True"
| "is_pool_event (PoolEnd c) = True"
| "is_pool_event ev = False"

definition pool_events :: "event list \<Rightarrow> event list" where
  "pool_events tr = filter is_pool_event tr"

fun is_open :: "event \<Rightarrow> bool" where
  "is_open (PoolOpen c) = True"
| "is_open ev = False"

fun is_build :: "event \<Rightarrow> bool" where
  "is_build (BuildConnStr c) = True"
| "is_build ev = False"

text \<open>The responses a run sent, the statements it ran and the requests it made, in order.\<close>

fun responses :: "event list \<Rightarrow> (nat \<times> jsval) list" where
  "responses [] = []"
| "responses (Respond st b # tr) = (st, b) # responses tr"
| "responses (ev # tr) = responses tr"

fun statements :: "event list \<Rightarrow> jsval list" where
  "statements [] = []"
| "statements (PoolQuery c q ps # tr) = q # statements tr"
| "statements (ev # tr) = statements tr"

fun requests :: "event list \<Rightarrow> fetch_options list" where
  "requests [] = []"
| "requests (Fetch u fo # tr) = fo # requests tr"
| "requests (ev # tr) = requests tr"

fun parse_calls :: "event list \<Rightarrow> (jsval \<times> csv_options) list" where
  "parse_calls [] = []"
| "parse_calls (ParseCSV content options # tr) = (content, options) # parse_calls tr"
| "parse_calls (ev # tr) = parse_calls tr"

text \<open>
  A run handles its pool well when it touches no pool at all, or opens one, queries it
  and ends it, once each and in this order, all on the same connection string.
\<close>

definition one_pool :: "event list \<Rightarrow> bool" where
  "one_pool tr \<longleftrightarrow>
     pool_events tr = [] \<or> (\<exists>c q ps. pool_events tr = [PoolOpen c, PoolQuery c q ps, PoolEnd c])"

section \<open>The query choice as the specification words it\<close>

text \<open>
  ``Explicit per-request override query > dataset's stored query > a default
  \<^verbatim>\<open>SELECT * FROM <table> LIMIT 100\<close>'', the default built from the table of the dataset's
  configuration. This definition follows the sentence, not the code; \<open>select_sql_query\<close>
  is the code.
\<close>

definition claimed_sql_query :: "dataset \<Rightarrow> jsval \<Rightarrow> jsval" where
  "claimed_sql_query ds override =
     (if truthy override \<and> is_string override then override
      else if truthy (ds_query ds) then ds_query ds
      else JStr (''SELECT * FROM '' @ to_str (get (ds_config ds) ''table'') @ '' LIMIT 100''))"

section \<open>A sample world\<close>

text \<open>
  One concrete outside world on which the handlers are run: eight connections, the
  datasets bound to them, a database that rejects one statement, and an upstream API of
  which one endpoint is down. Its connection-string helper accepts a configuration that
  names a database and a user.
\<close>

definition sql_direct :: connection where
  "sql_direct =
     \<lparr>conn_id = JNum 1, conn_type = JStr ''sql'',
      conn_config = JObj [(''connectionString'', JStr ''postgres://reader@db.internal/sales''),
                          (''host'', JStr ''ignored.internal''),
                          (''database'', JStr ''other''),
                          (''user'', JStr ''nobody'')]\<rparr>"

definition sql_incomplete :: connection where
  "sql_incomplete =
     \<lparr>conn_id = JNum 2, conn_type = JStr ''sql'',
      conn_config = JObj [(''host'', JStr ''db.internal''), (''port'', JNum 5432)]\<rparr>"

definition rest_basic :: connection where
  "rest_basic =
     \<lparr>conn_id = JNum 3, conn_type = JStr ''rest'',
      conn_config = JObj [(''url'', JStr ''https://api.example.com/items''),
                          (''headers'', JObj [(''Accept'', JStr ''application/json'')]),
                          (''auth'', JObj [(''type'', JStr ''basic''),
                                           (''username'', JStr ''user''),
                                           (''password'', JStr ''pass'')])]\<rparr>"

definition csv_empty :: connection where
  "csv_empty = \<lparr>conn_id = JNum 4, conn_type = JStr ''csv'', conn_config = JObj []\<rparr>"

definition csv_inline :: connection where
  "csv_inline =
     \<lparr>conn_id = JNum 5, conn_type = JStr ''csv'',
      conn_config = JObj [(''csvData'', JStr (''a;b'' @ [CHR 0x0A] @ ''1;2'')),
                          (''delimiter'', JStr '';''),
                          (''hasHeaders'', JBool True)]\<rparr>"

definition mongo :: connection where
  "mongo = \<lparr>conn_id = JNum 6, conn_type = JStr ''mongodb'', conn_config = JObj []\<rparr>"

definition rest_down :: connection where
  "rest_down =
     \<lparr>conn_id = JNum 7, conn_type = JStr ''rest'',
      conn_config = JObj [(''url'', JStr ''https://api.example.com/down'')]\<rparr>"

definition sql_fields :: connection where
  "sql_fields =
     \<lparr>conn_id = JNum 8, conn_type = JStr ''sql'',
      conn_config = JObj [(''host'', JStr ''db.internal''), (''database'', JStr ''sales''),
                          (''user'', JStr ''app'')]\<rparr>"

definition sample_connections :: "(jsval \<times> connection) list" where
  "sample_connections =
     [(JNum 1, sql_direct), (JNum 2, sql_incomplete), (JNum 3, rest_basic),
      (JNum 4, csv_empty), (JNum 5, csv_inline), (JNum 6, mongo), (JNum 7, rest_down),
      (JNum 8, sql_fields)]"

definition sample_dataset :: "int \<Rightarrow> jsval \<Rightarrow> jsval \<Rightarrow> jsval \<Rightarrow> dataset" where
  "sample_dataset n c q cfg = \<lparr>ds_id = JNum n, ds_connectionId = c, ds_query = q, ds_config = cfg\<rparr>"

definition sample_datasets :: "(jsval \<times> dataset) list" where
  "sample_datasets =
     [(JNum 5, sample_dataset 5 (JNum 1) (JStr ''SELECT a FROM t'') JNull),
      (JNum 6, sample_dataset 6 (JNum 1) JNull (JObj [(''table'', JStr ''orders'')])),
      (JNum 7, sample_dataset 7 (JNum 1) JNull JNull),
      (JNum 8, sample_dataset 8 (JNum 2) (JStr ''SELECT 1'') JNull),
      (JNum 9, sample_dataset 9 (JNum 3) JNull JNull),
      (JNum 10, sample_dataset 10 (JNum 4) JNull JNull),
      (JNum 11, sample_dataset 11 (JNum 5) JNull JNull),
      (JNum 12, sample_dataset 12 (JNum 6) JNull JNull),
      (JNum 13, sample_dataset 13 JNull JNull JNull),
      (JNum 14, sample_dataset 14 (JNum 7) JNull JNull),
      (JNum 15, sample_dataset 15 (JNum 1) (JStr ''SELECT broken'') JNull)]"

definition sample_buildPg :: "jsval \<Rightarrow> jsval" where
  "sample_buildPg config =
     (if truthy (get config ''database'')
         \<and> truthy (js_or (get config ''user'') (get config ''username''))
      then JStr (''postgresql://'' @ to_str (js_or (get config ''user'') (get config ''username''))
                 @ ''@'' @ to_str (js_or (get config ''host'') (JStr ''localhost''))
                 @ ''/'' @ to_str (get config ''database''))
      else JNull)"

definition sample_fetch :: "jsval \<Rightarrow> fetch_options \<Rightarrow> exn + http_response" where
  "sample_fetch url fo =
     (if url = JStr ''https://api.example.com/down'' then
        Inr \<lparr>resp_ok = False, resp_status = 503, resp_statusText = ''Service Unavailable'',
             resp_json = Inl ''Unexpected end of JSON input''\<rparr>
      else
        Inr \<lparr>resp_ok = True, resp_status = 200, resp_statusText = ''OK'',
             resp_json = Inr (JArr [JObj [(''sku'', JStr ''A-1'')]])\<rparr>)"

definition sample_pool_query :: "jsval \<Rightarrow> jsval \<Rightarrow> jsval list \<Rightarrow> exn + jsval list" where
  "sample_pool_query connectionString text params =
     (if text = JStr ''SELECT broken'' then Inl ''column broken does not exist''
      else Inr [JObj [(''table_name'', JStr ''orders'')]])"

definition sample_env :: env where
  "sample_env =
     \<lparr>getDataset = (\<lambda>i. Inr (map_of sample_datasets i)),
      getConnection = (\<lambda>i. Inr (map_of sample_connections i)),
      parseCSV = (\<lambda>content options. Inr (JArr [JObj [(''a'', JStr ''1''), (''b'', JStr ''2'')]])),
      fetch = sample_fetch,
      extractRESTData = (\<lambda>body resultPath. Inr body),
      JSON_stringify = (\<lambda>v. ''null''),
      buildPgConnectionString = sample_buildPg,
      pool_query = sample_pool_query\<rparr>"

section \<open>Properties\<close>

lemma map_of_set_prop_same: "map_of (set_prop kvs k v) k = Some v"
  by (induction kvs) auto

lemma map_of_set_prop_other: "k' \<noteq> k \<Longrightarrow> map_of (set_prop kvs k' v) k = map_of kvs k"
  by (induction kvs) auto

lemma get_set_prop_same: "get (JObj (set_prop kvs k v)) k = v"
  by (simp add: map_of_set_prop_same)

lemma get_set_prop_other: "k' \<noteq> k \<Longrightarrow> get (JObj (set_prop kvs k' v)) k = get (JObj kvs) k"
  by (simp add: map_of_set_prop_other)

lemma truthy_get_object: "truthy (get v k) \<Longrightarrow> truthy v \<and> is_object v"
  by (cases v) auto

text \<open>The three ways the connection-string block ends.\<close>

lemma resolve_direct:
  "truthy (get config ''connectionString'') \<Longrightarrow>
   resolve_connection_string e config = ([], Some (get config ''connectionString''))"
  by (simp add: resolve_connection_string_def)

lemma resolve_built:
  "\<not> truthy (get config ''connectionString'') \<Longrightarrow> truthy (buildPgConnectionString e config) \<Longrightarrow>
   resolve_connection_string e config = ([BuildConnStr config], Some (buildPgConnectionString e config))"
  by (simp add: resolve_connection_string_def)

lemma resolve_failed:
  "\<not> truthy (get config ''connectionString'') \<Longrightarrow> \<not> truthy (buildPgConnectionString e config) \<Longrightarrow>
   resolve_connection_string e config =
     ([BuildConnStr config,
       Respond 400 (message
         ''Connection configuration is incomplete. Database and user/username are required.'')],
      None)"
  by (simp add: resolve_connection_string_def)

lemma one_pool_skip: "\<not> is_pool_event ev \<Longrightarrow> one_pool (ev # tr) = one_pool tr"
  by (simp add: one_pool_def pool_events_def)

lemma one_pool_Nil: "one_pool []"
  by (simp add: one_pool_def pool_events_def)

lemma one_pool_with_connection_string:
  assumes "\<And>cs. one_pool (k cs)"
  shows "one_pool (with_connection_string e c k)"
proof (cases "truthy (conn_config c)")
  case False
  then show ?thesis
    by (simp add: with_connection_string_def one_pool_skip one_pool_Nil)
next
  case cfg: True
  show ?thesis
  proof (cases "truthy (get (conn_config c) ''connectionString'')")
    case True
    with cfg assms show ?thesis
      by (simp add: with_connection_string_def resolve_direct)
  next
    case no: False
    show ?thesis
    proof (cases "truthy (buildPgConnectionString e (conn_config c))")
      case True
      with cfg no assms show ?thesis
        by (simp add: with_connection_string_def resolve_built one_pool_skip Let_def)
    next
      case False
      with cfg no show ?thesis
        by (simp add: with_connection_string_def resolve_failed one_pool_skip one_pool_Nil)
    qed
  qed
qed

lemma one_pool_data_sql_pool: "one_pool (data_sql_pool e ds cq cs)"
  by (simp add: data_sql_pool_def one_pool_def pool_events_def Let_def split: sum.splits)

lemma one_pool_table_schema_pool: "one_pool (table_schema_pool e t cs)"
  by (simp add: table_schema_pool_def one_pool_def pool_events_def split: sum.splits)

lemma one_pool_connection_tables_pool: "one_pool (connection_tables_pool e cs)"
  by (simp add: connection_tables_pool_def one_pool_def pool_events_def split: sum.splits)

lemma one_pool_execute_query_pool: "one_pool (execute_query_pool e q cs)"
  by (simp add: execute_query_pool_def one_pool_def pool_events_def split: sum.splits)

lemma one_pool_execute_dataset_query: "one_pool (execute_dataset_query e ds q cs)"
  by (simp add: execute_dataset_query_def one_pool_def pool_events_def Let_def split: sum.splits)

lemma one_pool_data_csv: "one_pool (data_csv e c)"
  by (simp add: data_csv_def one_pool_def pool_events_def Let_def split: sum.splits)

lemma one_pool_data_rest: "one_pool (data_rest e c)"
  by (simp add: data_rest_def rest_failed_def one_pool_def pool_events_def Let_def split: sum.splits)

lemma one_pool_dataset_data: "one_pool (dataset_data e i cq)"
  by (simp add: dataset_data_def data_sql_def one_pool_skip one_pool_Nil one_pool_data_csv
        one_pool_data_rest one_pool_with_connection_string one_pool_data_sql_pool
      split: sum.splits option.splits)

lemma one_pool_table_schema: "one_pool (table_schema e c t)"
  by (simp add: table_schema_def one_pool_skip one_pool_Nil one_pool_with_connection_string
        one_pool_table_schema_pool split: sum.splits option.splits)

lemma one_pool_connection_tables: "one_pool (connection_tables e c)"
  by (simp add: connection_tables_def one_pool_skip one_pool_Nil one_pool_with_connection_string
        one_pool_connection_tables_pool split: sum.splits option.splits)

lemma one_pool_execute_query: "one_pool (execute_query e c q)"
  by (simp add: execute_query_def one_pool_skip one_pool_Nil one_pool_with_connection_string
        one_pool_execute_query_pool split: sum.splits option.splits)

text \<open>The path of the data handler to a connection.\<close>

lemma dataset_data_reaches:
  assumes "getDataset e ident = Inr (Some ds)" and "ds_connectionId ds \<noteq> JNull"
    and "getConnection e (ds_connectionId ds) = Inr (Some conn)"
  shows "dataset_data e ident customQuery =
           GetDataset ident # GetConnection (ds_connectionId ds) #
           (if conn_type conn = JStr ''csv'' then data_csv e conn
            else if conn_type conn = JStr ''rest'' then data_rest e conn
            else if conn_type conn = JStr ''sql'' then data_sql e ds conn customQuery
            else [Respond 200 (JArr [])])"
  using assms by (simp add: dataset_data_def)

lemma with_connection_string_direct:
  assumes "truthy (get (conn_config conn) ''connectionString'')"
  shows "with_connection_string e conn k = k (get (conn_config conn) ''connectionString'')"
proof -
  from assms have "truthy (conn_config conn)"
    using truthy_get_object by blast
  with assms show ?thesis
    by (simp add: with_connection_string_def resolve_direct Let_def)
qed

lemma statements_append: "statements (xs @ ys) = statements xs @ statements ys"
  by (induction xs rule: statements.induct) simp_all

lemma responses_append: "responses (xs @ ys) = responses xs @ responses ys"
  by (induction xs rule: responses.induct) simp_all

lemma statements_data_sql_pool:
  "statements (data_sql_pool e ds cq cs) = [select_sql_query ds cq]"
  by (simp add: data_sql_pool_def Let_def split: sum.splits)

lemma statements_execute_dataset_query:
  "statements (execute_dataset_query e ds q cs) = [dataset_cte_query ds q]"
  by (simp add: execute_dataset_query_def Let_def split: sum.splits)

text \<open>
  C1 (amended). In the handler that runs a request's query against a dataset, a dataset
  with a stored query makes the executed statement exactly
  \<^verbatim>\<open>WITH dataset_<id> AS (<dataset query>) <request query>\<close>. The data-fetch handler does
  not wrap: it runs a request's \<^verbatim>\<open>customQuery\<close> alone.
\<close>

theorem dataset_query_wrapped_as_cte:
  assumes "truthy (ds_query ds)"
  shows "statements (execute_dataset_query e ds query connectionString) =
           [JStr (''WITH dataset_'' @ to_str (ds_id ds) @ '' AS ('' @ to_str (ds_query ds) @ '') ''
                  @ to_str query)]"
  using assms by (simp add: statements_execute_dataset_query dataset_cte_query_def)

theorem dataset_query_wrapped_as_cte_witness:
  "truthy (ds_query (sample_dataset 5 (JNum 1) (JStr ''SELECT a FROM t'') JNull)) \<and>
   statements (execute_dataset_query sample_env
                 (sample_dataset 5 (JNum 1) (JStr ''SELECT a FROM t'') JNull)
                 (JStr ''SELECT * FROM dataset_5'') (JStr ''postgres://reader@db.internal/sales''))
     = [JStr ''WITH dataset_5 AS (SELECT a FROM t) SELECT * FROM dataset_5'']"
  using dataset_query_wrapped_as_cte [of "sample_dataset 5 (JNum 1) (JStr ''SELECT a FROM t'') JNull"
      sample_env "JStr ''SELECT * FROM dataset_5''" "JStr ''postgres://reader@db.internal/sales''"]
  by (simp add: sample_dataset_def show_int_def show_nat.simps)

lemma sample_run_5:
  "dataset_data sample_env (JNum 5) cq =
     GetDataset (JNum 5) # GetConnection (JNum 1) #
     data_sql_pool sample_env (sample_dataset 5 (JNum 1) (JStr ''SELECT a FROM t'') JNull) cq
       (JStr ''postgres://reader@db.internal/sales'')"
proof -
  have ds: "getDataset sample_env (JNum 5) = Inr (Some (sample_dataset 5 (JNum 1) (JStr ''SELECT a FROM t'') JNull))"
    by (simp add: sample_env_def sample_datasets_def)
  have conn: "getConnection sample_env (JNum 1) = Inr (Some sql_direct)"
    by (simp add: sample_env_def sample_connections_def)
  have cs: "get (conn_config sql_direct) ''connectionString'' = JStr ''postgres://reader@db.internal/sales''"
    by (simp add: sql_direct_def)
  show ?thesis
    using dataset_data_reaches [of sample_env "JNum 5" _ sql_direct cq, OF ds] conn
      with_connection_string_direct [of sql_direct sample_env] cs
    by (simp add: sample_dataset_def data_sql_def sql_direct_def)
qed

theorem data_fetch_override_not_wrapped:
  "getDataset sample_env (JNum 5) =
     Inr (Some \<lparr>ds_id = JNum 5, ds_connectionId = JNum 1, ds_query = JStr ''SELECT a FROM t'',
                ds_config = JNull\<rparr>) \<and>
   statements (dataset_data sample_env (JNum 5) (JStr ''SELECT * FROM dataset_5''))
     = [JStr ''SELECT * FROM dataset_5''] \<and>
   statements (dataset_data sample_env (JNum 5) (JStr ''SELECT * FROM dataset_5''))
     \<noteq> [JStr ''WITH dataset_5 AS (SELECT a FROM t) SELECT * FROM dataset_5'']"
  by (simp add: sample_run_5 statements_data_sql_pool select_sql_query_def)
     (simp add: sample_env_def sample_datasets_def sample_dataset_def)

text \<open>The sample world, looked up.\<close>

lemma sample_ds:
  "getDataset sample_env (JNum 5) = Inr (Some (sample_dataset 5 (JNum 1) (JStr ''SELECT a FROM t'') JNull))"
  "getDataset sample_env (JNum 6) = Inr (Some (sample_dataset 6 (JNum 1) JNull (JObj [(''table'', JStr ''orders'')])))"
  "getDataset sample_env (JNum 7) = Inr (Some (sample_dataset 7 (JNum 1) JNull JNull))"
  "getDataset sample_env (JNum 8) = Inr (Some (sample_dataset 8 (JNum 2) (JStr ''SELECT 1'') JNull))"
  "getDataset sample_env (JNum 9) = Inr (Some (sample_dataset 9 (JNum 3) JNull JNull))"
  "getDataset sample_env (JNum 10) = Inr (Some (sample_dataset 10 (JNum 4) JNull JNull))"
  "getDataset sample_env (JNum 11) = Inr (Some (sample_dataset 11 (JNum 5) JNull JNull))"
  "getDataset sample_env (JNum 12) = Inr (Some (sample_dataset 12 (JNum 6) JNull JNull))"
  "getDataset sample_env (JNum 13) = Inr (Some (sample_dataset 13 JNull JNull JNull))"
  "getDataset sample_env (JNum 14) = Inr (Some (sample_dataset 14 (JNum 7) JNull JNull))"
  "getDataset sample_env (JNum 15) = Inr (Some (sample_dataset 15 (JNum 1) (JStr ''SELECT broken'') JNull))"
  by (simp_all add: sample_env_def sample_datasets_def)

lemma sample_conn:
  "getConnection sample_env (JNum 1) = Inr (Some sql_direct)"
  "getConnection sample_env (JNum 2) = Inr (Some sql_incomplete)"
  "getConnection sample_env (JNum 3) = Inr (Some rest_basic)"
  "getConnection sample_env (JNum 4) = Inr (Some csv_empty)"
  "getConnection sample_env (JNum 5) = Inr (Some csv_inline)"
  "getConnection sample_env (JNum 6) = Inr (Some mongo)"
  "getConnection sample_env (JNum 7) = Inr (Some rest_down)"
  "getConnection sample_env (JNum 8) = Inr (Some sql_fields)"
  by (simp_all add: sample_env_def sample_connections_def)

lemma sample_fields:
  "ds_id (sample_dataset n c q cfg) = JNum n"
  "ds_connectionId (sample_dataset n c q cfg) = c"
  "ds_query (sample_dataset n c q cfg) = q"
  "ds_config (sample_dataset n c q cfg) = cfg"
  by (simp_all add: sample_dataset_def)

lemma sample_pool: "pool_query sample_env = sample_pool_query"
  by (simp add: sample_env_def)

text \<open>
  C3. A data fetch on a sql connection whose configuration has no connection string and
  for which the helper \<^verbatim>\<open>buildPgConnectionString\<close> yields none (not enough discrete
  fields) is answered with status 400, and the run opens no pool. The same holds when the
  configuration is missing altogether.
\<close>

theorem incomplete_sql_config_rejected:
  assumes "getDataset e ident = Inr (Some ds)" and "ds_connectionId ds \<noteq> JNull"
    and "getConnection e (ds_connectionId ds) = Inr (Some conn)"
    and "conn_type conn = JStr ''sql''"
    and "\<not> truthy (get (conn_config conn) ''connectionString'')"
    and "\<not> truthy (buildPgConnectionString e (conn_config conn))"
  shows "responses (dataset_data e ident customQuery) =
           [(400, message (if truthy (conn_config conn)
                           then ''Connection configuration is incomplete. Database and user/username are required.''
                           else ''Connection configuration is missing''))]
         \<and> pool_events (dataset_data e ident customQuery) = []"
  using assms
  by (simp add: dataset_data_reaches data_sql_def with_connection_string_def resolve_failed
        pool_events_def Let_def)

theorem incomplete_sql_config_rejected_witness:
  "getDataset sample_env (JNum 8) = Inr (Some (sample_dataset 8 (JNum 2) (JStr ''SELECT 1'') JNull)) \<and>
   ds_connectionId (sample_dataset 8 (JNum 2) (JStr ''SELECT 1'') JNull) \<noteq> JNull \<and>
   getConnection sample_env (JNum 2) = Inr (Some sql_incomplete) \<and>
   conn_config sql_incomplete = JObj [(''host'', JStr ''db.internal''), (''port'', JNum 5432)] \<and>
   \<not> truthy (get (conn_config sql_incomplete) ''connectionString'') \<and>
   \<not> truthy (buildPgConnectionString sample_env (conn_config sql_incomplete)) \<and>
   responses (dataset_data sample_env (JNum 8) JUndef) =
     [(400, message ''Connection configuration is incomplete. Database and user/username are required.'')] \<and>
   pool_events (dataset_data sample_env (JNum 8) JUndef) = []"
proof -
  have cfg: "conn_config sql_incomplete = JObj [(''host'', JStr ''db.internal''), (''port'', JNum 5432)]"
    "conn_type sql_incomplete = JStr ''sql''"
    by (simp_all add: sql_incomplete_def)
  have nocs: "\<not> truthy (get (conn_config sql_incomplete) ''connectionString'')"
    by (simp add: cfg)
  have nobuild: "\<not> truthy (buildPgConnectionString sample_env (conn_config sql_incomplete))"
    by (simp add: cfg sample_env_def sample_buildPg_def)
  have conn: "getConnection sample_env (ds_connectionId (sample_dataset 8 (JNum 2) (JStr ''SELECT 1'') JNull)) = Inr (Some sql_incomplete)"
    by (simp add: sample_fields sample_conn)
  have nn: "ds_connectionId (sample_dataset 8 (JNum 2) (JStr ''SELECT 1'') JNull) \<noteq> JNull"
    by (simp add: sample_fields)
  show ?thesis
    using incomplete_sql_config_rejected [OF sample_ds(4) nn conn cfg(2) nocs nobuild, of JUndef]
      nocs nobuild
    by (simp add: sample_ds sample_conn sample_fields cfg)
qed

lemma select_sql_query_tiers:
  "select_sql_query ds customQuery =
     (if truthy customQuery \<and> is_string customQuery then customQuery
      else if truthy (ds_query ds) then ds_query ds
      else if truthy (get (ds_config ds) ''table'') then
        JStr (''SELECT * FROM '' @ to_str (get (ds_config ds) ''table'') @ '' LIMIT 100'')
      else JStr ''SELECT * FROM users LIMIT 100'')"
  using truthy_get_object [of "ds_config ds" "''table''"]
  by (auto simp: select_sql_query_def Let_def)

lemma with_connection_string_cases:
  obtains (rejected) evs where "with_connection_string e c k = evs"
      and "pool_events evs = []" and "statements evs = []"
  | (resolved) evs cs where "with_connection_string e c k = evs @ k cs"
      and "pool_events evs = []" and "statements evs = []"
proof (cases "truthy (conn_config c)")
  case False
  then show ?thesis
    using rejected by (simp add: with_connection_string_def pool_events_def)
next
  case cfg: True
  show ?thesis
  proof (cases "truthy (get (conn_config c) ''connectionString'')")
    case True
    with cfg show ?thesis
      using resolved [of "[]"] by (simp add: with_connection_string_def resolve_direct pool_events_def)
  next
    case no: False
    show ?thesis
    proof (cases "truthy (buildPgConnectionString e (conn_config c))")
      case True
      with cfg no show ?thesis
        using resolved [of "[BuildConnStr (conn_config c)]"]
        by (simp add: with_connection_string_def resolve_built pool_events_def Let_def)
    next
      case False
      with cfg no show ?thesis
        using rejected
        by (simp add: with_connection_string_def resolve_failed pool_events_def Let_def)
    qed
  qed
qed

lemma pool_events_Cons_other: "\<not> is_pool_event ev \<Longrightarrow> pool_events (ev # tr) = pool_events tr"
  by (simp add: pool_events_def)

text \<open>
  C4 (amended). A data fetch on a sql connection either is rejected before any pool is
  touched, or runs exactly one statement, chosen in this order: the request's
  \<^verbatim>\<open>customQuery\<close> when it is a non-empty string; otherwise the dataset's stored query when
  there is one; otherwise \<^verbatim>\<open>SELECT * FROM <table> LIMIT 100\<close> when the dataset's
  configuration names a table; otherwise the fixed \<^verbatim>\<open>SELECT * FROM users LIMIT 100\<close>.
\<close>

theorem sql_query_precedence:
  assumes "getDataset e ident = Inr (Some ds)" and "ds_connectionId ds \<noteq> JNull"
    and "getConnection e (ds_connectionId ds) = Inr (Some conn)"
    and "conn_type conn = JStr ''sql''"
  shows "pool_events (dataset_data e ident customQuery) = [] \<or>
         statements (dataset_data e ident customQuery) =
           [if truthy customQuery \<and> is_string customQuery then customQuery
            else if truthy (ds_query ds) then ds_query ds
            else if truthy (get (ds_config ds) ''table'') then
              JStr (''SELECT * FROM '' @ to_str (get (ds_config ds) ''table'') @ '' LIMIT 100'')
            else JStr ''SELECT * FROM users LIMIT 100'']"
proof -
  have run: "dataset_data e ident customQuery =
      GetDataset ident # GetConnection (ds_connectionId ds) #
      with_connection_string e conn (data_sql_pool e ds customQuery)"
    using assms by (simp add: dataset_data_reaches data_sql_def)
  show ?thesis
  proof (cases rule: with_connection_string_cases [of e conn "data_sql_pool e ds customQuery"])
    case (rejected evs)
    then show ?thesis
      by (simp add: run pool_events_Cons_other)
  next
    case (resolved evs cs)
    then have "statements (dataset_data e ident customQuery) = [select_sql_query ds customQuery]"
      by (simp add: run statements_append statements_data_sql_pool)
    then show ?thesis
      by (simp add: select_sql_query_tiers)
  qed
qed

lemma sample_run_direct:
  assumes "getDataset sample_env ident = Inr (Some ds)" and "ds_connectionId ds = JNum 1"
  shows "dataset_data sample_env ident customQuery =
           GetDataset ident # GetConnection (JNum 1) #
           data_sql_pool sample_env ds customQuery (JStr ''postgres://reader@db.internal/sales'')"
proof -
  have "with_connection_string sample_env sql_direct (data_sql_pool sample_env ds customQuery) =
          data_sql_pool sample_env ds customQuery (JStr ''postgres://reader@db.internal/sales'')"
    using with_connection_string_direct [of sql_direct sample_env]
    by (simp add: sql_direct_def)
  moreover have "conn_type sql_direct = JStr ''sql''"
    by (simp add: sql_direct_def)
  ultimately show ?thesis
    using assms dataset_data_reaches [of sample_env ident ds sql_direct customQuery]
    by (simp add: sample_conn data_sql_def)
qed

theorem sql_query_precedence_witness:
  "getDataset sample_env (JNum 6) =
     Inr (Some (sample_dataset 6 (JNum 1) JNull (JObj [(''table'', JStr ''orders'')]))) \<and>
   getConnection sample_env (JNum 1) = Inr (Some sql_direct) \<and>
   conn_type sql_direct = JStr ''sql'' \<and>
   statements (dataset_data sample_env (JNum 6) (JStr ''SELECT 2'')) = [JStr ''SELECT 2''] \<and>
   statements (dataset_data sample_env (JNum 5) JUndef) = [JStr ''SELECT a FROM t''] \<and>
   statements (dataset_data sample_env (JNum 6) JUndef) = [JStr ''SELECT * FROM orders LIMIT 100''] \<and>
   statements (dataset_data sample_env (JNum 7) JUndef) = [JStr ''SELECT * FROM users LIMIT 100'']"
proof -
  have sql: "conn_type sql_direct = JStr ''sql''"
    by (simp add: sql_direct_def)
  have conn: "getConnection sample_env (ds_connectionId (sample_dataset 6 (JNum 1) JNull (JObj [(''table'', JStr ''orders'')]))) = Inr (Some sql_direct)"
    by (simp add: sample_fields sample_conn)
  have nn: "ds_connectionId (sample_dataset 6 (JNum 1) JNull (JObj [(''table'', JStr ''orders'')])) \<noteq> JNull"
    by (simp add: sample_fields)
  have pool: "pool_events (dataset_data sample_env (JNum 6) JUndef) \<noteq> []"
    by (simp add: sample_run_direct [OF sample_ds(2)] sample_fields pool_events_def data_sql_pool_def Let_def)
  have six: "statements (dataset_data sample_env (JNum 6) JUndef) = [JStr ''SELECT * FROM orders LIMIT 100'']"
    using sql_query_precedence [OF sample_ds(2) nn conn sql, of JUndef] pool
    by (simp add: sample_fields)
  show ?thesis
    using six
    by (simp add: sample_ds sample_conn sql sample_run_direct sample_fields statements_data_sql_pool
          select_sql_query_tiers)
qed

theorem sql_query_fallback_users:
  "getDataset sample_env (JNum 7) =
     Inr (Some \<lparr>ds_id = JNum 7, ds_connectionId = JNum 1, ds_query = JNull, ds_config = JNull\<rparr>) \<and>
   statements (dataset_data sample_env (JNum 7) JUndef) = [JStr ''SELECT * FROM users LIMIT 100''] \<and>
   claimed_sql_query \<lparr>ds_id = JNum 7, ds_connectionId = JNum 1, ds_query = JNull, ds_config = JNull\<rparr> JUndef
     = JStr ''SELECT * FROM undefined LIMIT 100'' \<and>
   statements (dataset_data sample_env (JNum 7) JUndef) \<noteq>
     [claimed_sql_query \<lparr>ds_id = JNum 7, ds_connectionId = JNum 1, ds_query = JNull, ds_config = JNull\<rparr> JUndef]"
  by (simp add: sample_run_direct [OF sample_ds(3)] sample_fields statements_data_sql_pool
        select_sql_query_tiers claimed_sql_query_def)
     (simp add: sample_ds sample_dataset_def)

lemma opens_of_pools:
  "filter is_open (data_sql_pool e ds cq cs) = [PoolOpen cs]"
  "filter is_open (table_schema_pool e t cs) = [PoolOpen cs]"
  "filter is_open (connection_tables_pool e cs) = [PoolOpen cs]"
  "filter is_open (execute_query_pool e q cs) = [PoolOpen cs]"
  by (simp_all add: data_sql_pool_def table_schema_pool_def connection_tables_pool_def
        execute_query_pool_def Let_def split: sum.splits)

lemma builds_of_pools:
  "filter is_build (data_sql_pool e ds cq cs) = []"
  "filter is_build (table_schema_pool e t cs) = []"
  "filter is_build (connection_tables_pool e cs) = []"
  "filter is_build (execute_query_pool e q cs) = []"
  by (simp_all add: data_sql_pool_def table_schema_pool_def connection_tables_pool_def
        execute_query_pool_def Let_def split: sum.splits)

text \<open>
  C5. In each of the four handlers, a sql connection whose configuration has a (non-empty)
  \<^verbatim>\<open>connectionString\<close> has its pool opened on exactly that value, and the run never calls
  \<^verbatim>\<open>buildPgConnectionString\<close>.
\<close>

theorem connection_string_used_verbatim:
  assumes "getConnection e cid = Inr (Some conn)"
    and "conn_type conn = JStr ''sql''"
    and "truthy (get (conn_config conn) ''connectionString'')"
    and "tr = dataset_data e ident customQuery \<and> getDataset e ident = Inr (Some ds)
            \<and> ds_connectionId ds = cid \<and> cid \<noteq> JNull
         \<or> tr = table_schema e cid table \<and> truthy cid \<and> truthy table \<and> is_string table
         \<or> tr = connection_tables e cid
         \<or> tr = execute_query e cid query \<and> truthy cid \<and> truthy query \<and> is_string query"
  shows "filter is_open tr = [PoolOpen (get (conn_config conn) ''connectionString'')]
         \<and> filter is_build tr = []"
proof -
  note direct = with_connection_string_direct [OF assms(3)]
  from assms(4) consider
      (data) "tr = dataset_data e ident customQuery" "getDataset e ident = Inr (Some ds)"
        "ds_connectionId ds = cid" "cid \<noteq> JNull"
    | (schema) "tr = table_schema e cid table" "truthy cid" "truthy table" "is_string table"
    | (tables) "tr = connection_tables e cid"
    | (query) "tr = execute_query e cid query" "truthy cid" "truthy query" "is_string query"
    by blast
  then show ?thesis
  proof cases
    case data
    with assms(1,2) show ?thesis
      by (simp add: dataset_data_reaches data_sql_def direct opens_of_pools builds_of_pools)
  next
    case schema
    with assms(1,2) show ?thesis
      by (simp add: table_schema_def direct opens_of_pools builds_of_pools)
  next
    case tables
    with assms(1,2) show ?thesis
      by (simp add: connection_tables_def direct opens_of_pools builds_of_pools)
  next
    case query
    with assms(1,2) show ?thesis
      by (simp add: execute_query_def direct opens_of_pools builds_of_pools)
  qed
qed

theorem connection_string_used_verbatim_witness:
  "getConnection sample_env (JNum 1) = Inr (Some sql_direct) \<and>
   conn_type sql_direct = JStr ''sql'' \<and>
   get (conn_config sql_direct) ''connectionString'' = JStr ''postgres://reader@db.internal/sales'' \<and>
   get (conn_config sql_direct) ''database'' = JStr ''other'' \<and>
   filter is_open (execute_query sample_env (JNum 1) (JStr ''SELECT 1''))
     = [PoolOpen (JStr ''postgres://reader@db.internal/sales'')] \<and>
   filter is_build (execute_query sample_env (JNum 1) (JStr ''SELECT 1'')) = [] \<and>
   filter is_open (dataset_data sample_env (JNum 5) JUndef)
     = [PoolOpen (JStr ''postgres://reader@db.internal/sales'')] \<and>
   filter is_build (dataset_data sample_env (JNum 5) JUndef) = []"
proof -
  have sql: "conn_type sql_direct = JStr ''sql''"
    and cs: "get (conn_config sql_direct) ''connectionString'' = JStr ''postgres://reader@db.internal/sales''"
    and db: "get (conn_config sql_direct) ''database'' = JStr ''other''"
    by (simp_all add: sql_direct_def)
  have t: "truthy (get (conn_config sql_direct) ''connectionString'')"
    by (simp add: cs)
  have q: "filter is_open (execute_query sample_env (JNum 1) (JStr ''SELECT 1''))
             = [PoolOpen (get (conn_config sql_direct) ''connectionString'')]
           \<and> filter is_build (execute_query sample_env (JNum 1) (JStr ''SELECT 1'')) = []"
    by (rule connection_string_used_verbatim [OF sample_conn(1) sql t,
          where query = "JStr ''SELECT 1''"]) simp
  have d: "filter is_open (dataset_data sample_env (JNum 5) JUndef)
             = [PoolOpen (get (conn_config sql_direct) ''connectionString'')]
           \<and> filter is_build (dataset_data sample_env (JNum 5) JUndef) = []"
    by (rule connection_string_used_verbatim [OF sample_conn(1) sql t,
          where ident = "JNum 5" and customQuery = JUndef
            and ds = "sample_dataset 5 (JNum 1) (JStr ''SELECT a FROM t'') JNull"])
       (simp add: sample_ds sample_fields)
  show ?thesis
    using q d by (simp add: sample_conn sql cs db)
qed

lemma requests_data_rest:
  assumes "truthy (get (conn_config conn) ''url'')"
  shows "requests (data_rest e conn) = [rest_fetch_options e (conn_config conn)]"
proof -
  from assms have "truthy (conn_config conn)"
    using truthy_get_object by blast
  with assms show ?thesis
    by (simp add: data_rest_def rest_failed_def Let_def split: sum.splits)
qed

lemma basic_object: "get auth ''type'' = JStr ''basic'' \<Longrightarrow> truthy auth"
  by (cases auth) simp_all

lemma authorization_of_basic:
  assumes "get (get config ''auth'') ''type'' = JStr ''basic''"
  shows "get (fo_headers (rest_fetch_options e config)) ''Authorization'' =
           JStr (''Basic '' @ basic_credentials (get config ''auth''))"
  using assms basic_object [OF assms]
  by (simp add: rest_fetch_options_def Let_def get_set_prop_same get_set_prop_other
        del: get.simps)

text \<open>
  C6. A data fetch on a rest connection with a URL and \<^verbatim>\<open>config.auth.type === 'basic'\<close>
  makes exactly one request, and its \<^verbatim>\<open>Authorization\<close> header is \<^verbatim>\<open>Basic\<close>, a space, and
  the base64 encoding of the username, a colon and the password of \<^verbatim>\<open>config.auth\<close> (each as
  the template literal renders it: a string as it is).
\<close>

theorem basic_auth_header:
  assumes "getDataset e ident = Inr (Some ds)" and "ds_connectionId ds \<noteq> JNull"
    and "getConnection e (ds_connectionId ds) = Inr (Some conn)"
    and "conn_type conn = JStr ''rest''"
    and "truthy (get (conn_config conn) ''url'')"
    and "get (get (conn_config conn) ''auth'') ''type'' = JStr ''basic''"
  shows "\<exists>fo. requests (dataset_data e ident customQuery) = [fo] \<and>
              get (fo_headers fo) ''Authorization'' =
                JStr (''Basic '' @ base64 (to_str (get (get (conn_config conn) ''auth'') ''username'')
                                         @ '':''
                                         @ to_str (get (get (conn_config conn) ''auth'') ''password'')))"
  using assms(1-4) requests_data_rest [OF assms(5)] authorization_of_basic [OF assms(6)]
  by (simp add: dataset_data_reaches basic_credentials_def del: get.simps)

theorem basic_auth_header_witness:
  "getDataset sample_env (JNum 9) = Inr (Some (sample_dataset 9 (JNum 3) JNull JNull)) \<and>
   getConnection sample_env (JNum 3) = Inr (Some rest_basic) \<and>
   conn_type rest_basic = JStr ''rest'' \<and>
   get (conn_config rest_basic) ''auth'' =
     JObj [(''type'', JStr ''basic''), (''username'', JStr ''user''), (''password'', JStr ''pass'')] \<and>
   (\<exists>fo. requests (dataset_data sample_env (JNum 9) JUndef) = [fo] \<and>
         get (fo_headers fo) ''Authorization'' = JStr ''Basic dXNlcjpwYXNz'')"
proof -
  have rest: "conn_type rest_basic = JStr ''rest''"
    and auth: "get (conn_config rest_basic) ''auth'' =
      JObj [(''type'', JStr ''basic''), (''username'', JStr ''user''), (''password'', JStr ''pass'')]"
    and url: "truthy (get (conn_config rest_basic) ''url'')"
    by (simp_all add: rest_basic_def)
  have basic: "get (get (conn_config rest_basic) ''auth'') ''type'' = JStr ''basic''"
    by (simp add: auth)
  have conn: "getConnection sample_env (ds_connectionId (sample_dataset 9 (JNum 3) JNull JNull)) = Inr (Some rest_basic)"
    by (simp add: sample_fields sample_conn)
  have nn: "ds_connectionId (sample_dataset 9 (JNum 3) JNull JNull) \<noteq> JNull"
    by (simp add: sample_fields)
  have enc: "base64 ''user:pass'' = ''dXNlcjpwYXNz''"
    by (simp add: base64_def b64_digit_def)
  show ?thesis
    using basic_auth_header [OF sample_ds(5) nn conn rest url basic, of JUndef] enc
    by (simp add: sample_ds sample_conn rest auth)
qed

lemma responses_rest_not_ok:
  assumes "truthy (get (conn_config conn) ''url'')"
    and "fetch e (get (conn_config conn) ''url'') (rest_fetch_options e (conn_config conn)) = Inr response"
    and "\<not> resp_ok response"
  shows "data_rest e conn =
           [Fetch (get (conn_config conn) ''url'') (rest_fetch_options e (conn_config conn)),
            Respond 400 (message_error ''REST API request failed''
              (''API returned '' @ show_int (resp_status response) @ '': '' @ resp_statusText response))]"
proof -
  from assms(1) have "truthy (conn_config conn)"
    using truthy_get_object by blast
  with assms show ?thesis
    by (simp add: data_rest_def rest_failed_def Let_def)
qed

text \<open>
  C7. A data fetch on a rest connection whose upstream response is not \<^verbatim>\<open>ok\<close> is
  answered once, with status 400, the message \<^verbatim>\<open>REST API request failed\<close> and an \<^verbatim>\<open>error\<close>
  field that carries the upstream status and status text; the response body is never
  read and no rows are sent.
\<close>

theorem rest_upstream_failure:
  assumes "getDataset e ident = Inr (Some ds)" and "ds_connectionId ds \<noteq> JNull"
    and "getConnection e (ds_connectionId ds) = Inr (Some conn)"
    and "conn_type conn = JStr ''rest''"
    and "truthy (get (conn_config conn) ''url'')"
    and "fetch e (get (conn_config conn) ''url'') (rest_fetch_options e (conn_config conn)) = Inr response"
    and "\<not> resp_ok response"
  shows "responses (dataset_data e ident customQuery) =
           [(400, JObj [(''message'', JStr ''REST API request failed''),
                        (''error'', JStr (''API returned '' @ show_int (resp_status response) @ '': ''
                                          @ resp_statusText response))])]
         \<and> ReadJson \<notin> set (dataset_data e ident customQuery)"
  using assms(1-4) responses_rest_not_ok [OF assms(5-7)]
  by (simp add: dataset_data_reaches message_error_def del: get.simps)

theorem rest_upstream_failure_witness:
  "getDataset sample_env (JNum 14) = Inr (Some (sample_dataset 14 (JNum 7) JNull JNull)) \<and>
   getConnection sample_env (JNum 7) = Inr (Some rest_down) \<and>
   conn_type rest_down = JStr ''rest'' \<and>
   responses (dataset_data sample_env (JNum 14) JUndef) =
     [(400, JObj [(''message'', JStr ''REST API request failed''),
                  (''error'', JStr ''API returned 503: Service Unavailable'')])] \<and>
   ReadJson \<notin> set (dataset_data sample_env (JNum 14) JUndef)"
proof -
  have rest: "conn_type rest_down = JStr ''rest''"
    and url: "get (conn_config rest_down) ''url'' = JStr ''https://api.example.com/down''"
    by (simp_all add: rest_down_def)
  have t: "truthy (get (conn_config rest_down) ''url'')"
    by (simp add: url)
  have conn: "getConnection sample_env (ds_connectionId (sample_dataset 14 (JNum 7) JNull JNull)) = Inr (Some rest_down)"
    by (simp add: sample_fields sample_conn)
  have nn: "ds_connectionId (sample_dataset 14 (JNum 7) JNull JNull) \<noteq> JNull"
    by (simp add: sample_fields)
  have down: "fetch sample_env (get (conn_config rest_down) ''url'') (rest_fetch_options sample_env (conn_config rest_down))
      = Inr \<lparr>resp_ok = False, resp_status = 503, resp_statusText = ''Service Unavailable'',
             resp_json = Inl ''Unexpected end of JSON input''\<rparr>"
    by (simp add: url sample_env_def sample_fetch_def)
  have code: "show_int 503 = ''503''"
    by (simp add: show_int_def show_nat.simps)
  show ?thesis
    using rest_upstream_failure [OF sample_ds(10) nn conn rest t down, of JUndef] code
    by (simp add: sample_ds sample_conn rest)
qed

text \<open>
  C8. A data fetch on a csv connection whose configuration holds no payload (neither
  \<^verbatim>\<open>csvData\<close> nor \<^verbatim>\<open>fileContent\<close> is truthy) is answered with status 400 and nothing is
  parsed. With a payload, \<^verbatim>\<open>parseCSV\<close> is called once, on the payload and on the configured
  delimiter, header flag, quote character and trim flag (a comma, true, a double quote
  and true where the configuration is silent), and what it returns is sent with
  status 200.
\<close>

theorem csv_payload_required:
  assumes "getDataset e ident = Inr (Some ds)" and "ds_connectionId ds \<noteq> JNull"
    and "getConnection e (ds_connectionId ds) = Inr (Some conn)"
    and "conn_type conn = JStr ''csv''"
    and "payload = js_or (get (conn_config conn) ''csvData'') (get (conn_config conn) ''fileContent'')"
    and "options = \<lparr>delimiter = js_or (get (conn_config conn) ''delimiter'') (JStr '',''),
                     hasHeaders = (get (conn_config conn) ''hasHeaders'' \<noteq> JBool False),
                     quoteChar = js_or (get (conn_config conn) ''quoteChar'') (JStr [CHR 0x22]),
                     trimFields = (get (conn_config conn) ''trimFields'' \<noteq> JBool False)\<rparr>"
  shows "(\<not> truthy payload \<longrightarrow>
            responses (dataset_data e ident customQuery) =
              [(400, message ''No CSV data found in connection'')]
            \<and> parse_calls (dataset_data e ident customQuery) = [])
         \<and> (truthy payload \<longrightarrow>
            parse_calls (dataset_data e ident customQuery) = [(payload, options)]
            \<and> (\<forall>data. parseCSV e payload options = Inr data \<longrightarrow>
                   responses (dataset_data e ident customQuery) = [(200, data)]))"
proof -
  have cfg: "truthy payload \<Longrightarrow> truthy (conn_config conn)"
    using truthy_get_object [of "conn_config conn"]
    by (auto simp: assms(5) js_or_def split: if_splits)
  show ?thesis
    using assms(1-4) cfg
    by (auto simp: dataset_data_reaches data_csv_def Let_def assms(5,6) [symmetric]
             split: sum.splits)
qed

theorem csv_payload_required_witness:
  "getDataset sample_env (JNum 10) = Inr (Some (sample_dataset 10 (JNum 4) JNull JNull)) \<and>
   getConnection sample_env (JNum 4) = Inr (Some csv_empty) \<and>
   conn_type csv_empty = JStr ''csv'' \<and> conn_config csv_empty = JObj [] \<and>
   responses (dataset_data sample_env (JNum 10) JUndef) =
     [(400, message ''No CSV data found in connection'')] \<and>
   parse_calls (dataset_data sample_env (JNum 10) JUndef) = [] \<and>
   getDataset sample_env (JNum 11) = Inr (Some (sample_dataset 11 (JNum 5) JNull JNull)) \<and>
   getConnection sample_env (JNum 5) = Inr (Some csv_inline) \<and>
   parse_calls (dataset_data sample_env (JNum 11) JUndef) =
     [(JStr (''a;b'' @ [CHR 0x0A] @ ''1;2''),
       \<lparr>delimiter = JStr '';'', hasHeaders = True, quoteChar = JStr [CHR 0x22],
        trimFields = True\<rparr>)] \<and>
   responses (dataset_data sample_env (JNum 11) JUndef) =
     [(200, JArr [JObj [(''a'', JStr ''1''), (''b'', JStr ''2'')]])]"
proof -
  have empty: "conn_type csv_empty = JStr ''csv''" "conn_config csv_empty = JObj []"
    by (simp_all add: csv_empty_def)
  have inline: "conn_type csv_inline = JStr ''csv''"
    "conn_config csv_inline = JObj [(''csvData'', JStr (''a;b'' @ [CHR 0x0A] @ ''1;2'')),
                          (''delimiter'', JStr '';''),
                          (''hasHeaders'', JBool True)]"
    by (simp_all add: csv_inline_def)
  have parse: "\<And>c opts. parseCSV sample_env c opts = Inr (JArr [JObj [(''a'', JStr ''1''), (''b'', JStr ''2'')]])"
    by (simp add: sample_env_def)
  have nn: "ds_connectionId (sample_dataset 10 (JNum 4) JNull JNull) \<noteq> JNull"
    "ds_connectionId (sample_dataset 11 (JNum 5) JNull JNull) \<noteq> JNull"
    by (simp_all add: sample_fields)
  have conn: "getConnection sample_env (ds_connectionId (sample_dataset 10 (JNum 4) JNull JNull)) = Inr (Some csv_empty)"
    "getConnection sample_env (ds_connectionId (sample_dataset 11 (JNum 5) JNull JNull)) = Inr (Some csv_inline)"
    by (simp_all add: sample_fields sample_conn)
  show ?thesis
    using csv_payload_required [OF sample_ds(6) nn(1) conn(1) empty(1) refl refl, of JUndef]
      csv_payload_required [OF sample_ds(7) nn(2) conn(2) inline(1) refl refl, of JUndef]
    by (simp add: sample_ds sample_conn empty inline js_or_def parse)
qed

text \<open>
  C9. A data fetch whose connection has a type other than \<^verbatim>\<open>csv\<close>, \<^verbatim>\<open>rest\<close> and \<^verbatim>\<open>sql\<close>
  does nothing beyond the two lookups and answers with status 200 and an empty array.
\<close>

theorem unknown_connection_type_empty_rows:
  assumes "getDataset e ident = Inr (Some ds)" and "ds_connectionId ds \<noteq> JNull"
    and "getConnection e (ds_connectionId ds) = Inr (Some conn)"
    and "conn_type conn \<notin> {JStr ''csv'', JStr ''rest'', JStr ''sql''}"
  shows "dataset_data e ident customQuery =
           [GetDataset ident, GetConnection (ds_connectionId ds), Respond 200 (JArr [])]"
  using assms by (simp add: dataset_data_reaches)

theorem unknown_connection_type_empty_rows_witness:
  "getDataset sample_env (JNum 12) = Inr (Some (sample_dataset 12 (JNum 6) JNull JNull)) \<and>
   getConnection sample_env (JNum 6) = Inr (Some mongo) \<and>
   conn_type mongo = JStr ''mongodb'' \<and>
   dataset_data sample_env (JNum 12) JUndef =
     [GetDataset (JNum 12), GetConnection (JNum 6), Respond 200 (JArr [])]"
proof -
  have ty: "conn_type mongo = JStr ''mongodb''"
    by (simp add: mongo_def)
  have other: "conn_type mongo \<notin> {JStr ''csv'', JStr ''rest'', JStr ''sql''}"
    by (simp add: ty)
  have nn: "ds_connectionId (sample_dataset 12 (JNum 6) JNull JNull) \<noteq> JNull"
    by (simp add: sample_fields)
  have conn: "getConnection sample_env (ds_connectionId (sample_dataset 12 (JNum 6) JNull JNull)) = Inr (Some mongo)"
    by (simp add: sample_fields sample_conn)
  show ?thesis
    using unknown_connection_type_empty_rows [OF sample_ds(8) nn conn other, of JUndef]
    by (simp add: sample_ds sample_conn ty sample_fields)
qed

text \<open>
  C10. A data fetch on a dataset whose \<^verbatim>\<open>connectionId\<close> is \<^verbatim>\<open>null\<close> is answered with
  status 400 and the message \<^verbatim>\<open>Dataset has no associated connection\<close>; the run looks up no
  connection and touches no pool: the dataset lookup and the response are all it does.
\<close>

theorem null_connection_id_rejected:
  assumes "getDataset e ident = Inr (Some ds)" and "ds_connectionId ds = JNull"
  shows "dataset_data e ident customQuery =
           [GetDataset ident, Respond 400 (message ''Dataset has no associated connection'')]"
  using assms by (simp add: dataset_data_def)

theorem null_connection_id_rejected_witness:
  "getDataset sample_env (JNum 13) = Inr (Some (sample_dataset 13 JNull JNull JNull)) \<and>
   ds_connectionId (sample_dataset 13 JNull JNull JNull) = JNull \<and>
   dataset_data sample_env (JNum 13) (JStr ''SELECT 1'') =
     [GetDataset (JNum 13),
      Respond 400 (JObj [(''message'', JStr ''Dataset has no associated connection'')])]"
proof -
  have null: "ds_connectionId (sample_dataset 13 JNull JNull JNull) = JNull"
    by (simp add: sample_fields)
  show ?thesis
    using null_connection_id_rejected [OF sample_ds(9) null, of "JStr ''SELECT 1''"]
    by (simp add: sample_ds null message_def)
qed

lemma pool_events_of_pools:
  "pool_events (data_sql_pool e ds cq cs) =
     [PoolOpen cs, PoolQuery cs (select_sql_query ds cq) [], PoolEnd cs]"
  "pool_events (table_schema_pool e t cs) =
     [PoolOpen cs, PoolQuery cs (JStr schemaQuery) [t], PoolEnd cs]"
  "pool_events (connection_tables_pool e cs) =
     [PoolOpen cs, PoolQuery cs (JStr tablesQuery) [], PoolEnd cs]"
  "pool_events (execute_query_pool e q cs) = [PoolOpen cs, PoolQuery cs q [], PoolEnd cs]"
  "pool_events (execute_dataset_query e ds q cs) =
     [PoolOpen cs, PoolQuery cs (dataset_cte_query ds q) [], PoolEnd cs]"
  by (simp_all add: data_sql_pool_def table_schema_pool_def connection_tables_pool_def
        execute_query_pool_def execute_dataset_query_def pool_events_def Let_def
      split: sum.splits)

lemma resolve_touches_no_pool:
  "resolve_connection_string e config = (evs, r) \<Longrightarrow> pool_events evs = []"
  by (auto simp: resolve_connection_string_def pool_events_def Let_def split: if_splits)

lemma pool_events_resolved:
  assumes "truthy (conn_config conn)"
    and "resolve_connection_string e (conn_config conn) = (evs, Some cs)"
  shows "pool_events (with_connection_string e conn k) = pool_events (k cs)"
  using assms resolve_touches_no_pool [OF assms(2)]
  by (simp add: with_connection_string_def Let_def pool_events_def)

text \<open>
  C2. Every handler that queries a database closes the pool it creates exactly once
  before its run ends, whatever the database answers. Take a sql connection whose
  connection string resolves to \<open>cs\<close>. Then a data fetch, a table-schema request, a
  table listing and a custom query that reach this connection each have exactly these
  pool events: the pool is opened on \<open>cs\<close>, queried once, and ended once, in this order.
  The handler that runs a query against a dataset does the same from the creation of its
  pool on. And no run of any of the five, on any input, has pool events other than none
  at all or that one sequence.
\<close>

theorem temp_pool_closed_exactly_once:
  assumes "conn_type conn = JStr ''sql''" and "truthy (conn_config conn)"
    and "resolve_connection_string e (conn_config conn) = (evs, Some cs)"
  shows "(getDataset e ident = Inr (Some ds) \<and> ds_connectionId ds \<noteq> JNull
            \<and> getConnection e (ds_connectionId ds) = Inr (Some conn) \<longrightarrow>
          pool_events (dataset_data e ident customQuery) =
            [PoolOpen cs, PoolQuery cs (select_sql_query ds customQuery) [], PoolEnd cs])
       \<and> (truthy cid1 \<and> truthy table \<and> is_string table
            \<and> getConnection e cid1 = Inr (Some conn) \<longrightarrow>
          pool_events (table_schema e cid1 table) =
            [PoolOpen cs, PoolQuery cs (JStr schemaQuery) [table], PoolEnd cs])
       \<and> (getConnection e cid2 = Inr (Some conn) \<longrightarrow>
          pool_events (connection_tables e cid2) =
            [PoolOpen cs, PoolQuery cs (JStr tablesQuery) [], PoolEnd cs])
       \<and> (truthy cid3 \<and> truthy query \<and> is_string query
            \<and> getConnection e cid3 = Inr (Some conn) \<longrightarrow>
          pool_events (execute_query e cid3 query) =
            [PoolOpen cs, PoolQuery cs query [], PoolEnd cs])
       \<and> pool_events (execute_dataset_query e ds4 query4 cs4) =
            [PoolOpen cs4, PoolQuery cs4 (dataset_cte_query ds4 query4) [], PoolEnd cs4]
       \<and> (tr \<in> {dataset_data e5 ident5 customQuery5, table_schema e5 cid5 table5,
                  connection_tables e5 cid6, execute_query e5 cid7 query7,
                  execute_dataset_query e5 ds8 query8 cs8} \<longrightarrow>
          pool_events tr = [] \<or>
          (\<exists>c q ps. pool_events tr = [PoolOpen c, PoolQuery c q ps, PoolEnd c]))"
proof -
  note resolved = pool_events_resolved [OF assms(2,3)]
  have data: "pool_events (dataset_data e ident customQuery) =
      [PoolOpen cs, PoolQuery cs (select_sql_query ds customQuery) [], PoolEnd cs]"
    if "getDataset e ident = Inr (Some ds)" "ds_connectionId ds \<noteq> JNull"
      "getConnection e (ds_connectionId ds) = Inr (Some conn)"
    using that assms(1)
    by (simp add: dataset_data_reaches data_sql_def pool_events_Cons_other resolved
          pool_events_of_pools)
  have schema: "pool_events (table_schema e cid1 table) =
      [PoolOpen cs, PoolQuery cs (JStr schemaQuery) [table], PoolEnd cs]"
    if "truthy cid1" "truthy table" "is_string table" "getConnection e cid1 = Inr (Some conn)"
    using that assms(1)
    by (simp add: table_schema_def pool_events_Cons_other resolved pool_events_of_pools)
  have tables: "pool_events (connection_tables e cid2) =
      [PoolOpen cs, PoolQuery cs (JStr tablesQuery) [], PoolEnd cs]"
    if "getConnection e cid2 = Inr (Some conn)"
    using that assms(1)
    by (simp add: connection_tables_def pool_events_Cons_other resolved pool_events_of_pools)
  have query: "pool_events (execute_query e cid3 query) =
      [PoolOpen cs, PoolQuery cs query [], PoolEnd cs]"
    if "truthy cid3" "truthy query" "is_string query" "getConnection e cid3 = Inr (Some conn)"
    using that assms(1)
    by (simp add: execute_query_def pool_events_Cons_other resolved pool_events_of_pools)
  have any: "pool_events tr = [] \<or>
      (\<exists>c q ps. pool_events tr = [PoolOpen c, PoolQuery c q ps, PoolEnd c])"
    if "tr \<in> {dataset_data e5 ident5 customQuery5, table_schema e5 cid5 table5,
                connection_tables e5 cid6, execute_query e5 cid7 query7,
                execute_dataset_query e5 ds8 query8 cs8}"
  proof -
    from that have "one_pool tr"
      using one_pool_dataset_data one_pool_table_schema one_pool_connection_tables
        one_pool_execute_query one_pool_execute_dataset_query
      by auto
    then show ?thesis by (simp add: one_pool_def)
  qed
  show ?thesis
    using data schema tables query any
    by (intro conjI impI) (simp_all add: pool_events_of_pools)
qed

theorem temp_pool_closed_exactly_once_witness:
  "resolve_connection_string sample_env (conn_config sql_direct) =
     ([], Some (JStr ''postgres://reader@db.internal/sales'')) \<and>
   resolve_connection_string sample_env (conn_config sql_fields) =
     ([BuildConnStr (conn_config sql_fields)], Some (JStr ''postgresql://app@db.internal/sales'')) \<and>
   pool_events (dataset_data sample_env (JNum 5) JUndef) =
     [PoolOpen (JStr ''postgres://reader@db.internal/sales''),
      PoolQuery (JStr ''postgres://reader@db.internal/sales'') (JStr ''SELECT a FROM t'') [],
      PoolEnd (JStr ''postgres://reader@db.internal/sales'')] \<and>
   responses (dataset_data sample_env (JNum 5) JUndef) =
     [(200, JArr [JObj [(''table_name'', JStr ''orders'')]])] \<and>
   pool_events (dataset_data sample_env (JNum 15) JUndef) =
     [PoolOpen (JStr ''postgres://reader@db.internal/sales''),
      PoolQuery (JStr ''postgres://reader@db.internal/sales'') (JStr ''SELECT broken'') [],
      PoolEnd (JStr ''postgres://reader@db.internal/sales'')] \<and>
   responses (dataset_data sample_env (JNum 15) JUndef) =
     [(400, message_error ''SQL query execution failed'' ''column broken does not exist'')] \<and>
   pool_events (execute_query sample_env (JNum 1) (JStr ''SELECT broken'')) =
     [PoolOpen (JStr ''postgres://reader@db.internal/sales''),
      PoolQuery (JStr ''postgres://reader@db.internal/sales'') (JStr ''SELECT broken'') [],
      PoolEnd (JStr ''postgres://reader@db.internal/sales'')] \<and>
   responses (execute_query sample_env (JNum 1) (JStr ''SELECT broken'')) =
     [(400, message_error ''SQL query execution failed'' ''column broken does not exist'')] \<and>
   pool_events (table_schema sample_env (JNum 8) (JStr ''orders'')) =
     [PoolOpen (JStr ''postgresql://app@db.internal/sales''),
      PoolQuery (JStr ''postgresql://app@db.internal/sales'') (JStr schemaQuery) [JStr ''orders''],
      PoolEnd (JStr ''postgresql://app@db.internal/sales'')] \<and>
   pool_events (connection_tables sample_env (JNum 8)) =
     [PoolOpen (JStr ''postgresql://app@db.internal/sales''),
      PoolQuery (JStr ''postgresql://app@db.internal/sales'') (JStr tablesQuery) [],
      PoolEnd (JStr ''postgresql://app@db.internal/sales'')] \<and>
   responses (connection_tables sample_env (JNum 8)) = [(200, JArr [JStr ''orders''])] \<and>
   pool_events (execute_dataset_query sample_env
       (sample_dataset 5 (JNum 1) (JStr ''SELECT a FROM t'') JNull)
       (JStr ''SELECT * FROM dataset_5'') (JStr ''postgres://reader@db.internal/sales'')) =
     [PoolOpen (JStr ''postgres://reader@db.internal/sales''),
      PoolQuery (JStr ''postgres://reader@db.internal/sales'')
        (JStr ''WITH dataset_5 AS (SELECT a FROM t) SELECT * FROM dataset_5'') [],
      PoolEnd (JStr ''postgres://reader@db.internal/sales'')]"
proof -
  let ?one = "JStr ''postgres://reader@db.internal/sales''"
  let ?eight = "JStr ''postgresql://app@db.internal/sales''"
  let ?ds5 = "sample_dataset 5 (JNum 1) (JStr ''SELECT a FROM t'') JNull"
  let ?ds15 = "sample_dataset 15 (JNum 1) (JStr ''SELECT broken'') JNull"
  have direct: "conn_type sql_direct = JStr ''sql''" "truthy (conn_config sql_direct)"
    "get (conn_config sql_direct) ''connectionString'' = ?one"
    by (simp_all add: sql_direct_def)
  have fields: "conn_type sql_fields = JStr ''sql''" "truthy (conn_config sql_fields)"
    "\<not> truthy (get (conn_config sql_fields) ''connectionString'')"
    "buildPgConnectionString sample_env (conn_config sql_fields) = ?eight"
    by (simp_all add: sql_fields_def sample_env_def sample_buildPg_def js_or_def)
  have r1: "resolve_connection_string sample_env (conn_config sql_direct) = ([], Some ?one)"
    using resolve_direct [of "conn_config sql_direct" sample_env] by (simp add: direct)
  have r8: "resolve_connection_string sample_env (conn_config sql_fields) =
      ([BuildConnStr (conn_config sql_fields)], Some ?eight)"
    using resolve_built [of "conn_config sql_fields" sample_env] by (simp add: fields)
  note t5 = temp_pool_closed_exactly_once [OF direct(1,2) r1,
      where ident = "JNum 5" and ds = ?ds5 and customQuery = JUndef
        and ?cid3.0 = "JNum 1" and query = "JStr ''SELECT broken''"
        and ?ds4.0 = ?ds5 and ?query4.0 = "JStr ''SELECT * FROM dataset_5''" and ?cs4.0 = ?one]
  note t15 = temp_pool_closed_exactly_once [OF direct(1,2) r1,
      where ident = "JNum 15" and ds = ?ds15 and customQuery = JUndef]
  note t8 = temp_pool_closed_exactly_once [OF fields(1,2) r8,
      where ?cid1.0 = "JNum 8" and table = "JStr ''orders''" and ?cid2.0 = "JNum 8"]
  have p5: "pool_events (dataset_data sample_env (JNum 5) JUndef) =
      [PoolOpen ?one, PoolQuery ?one (JStr ''SELECT a FROM t'') [], PoolEnd ?one]"
    using t5 by (simp add: sample_ds sample_conn sample_fields select_sql_query_tiers)
  have p15: "pool_events (dataset_data sample_env (JNum 15) JUndef) =
      [PoolOpen ?one, PoolQuery ?one (JStr ''SELECT broken'') [], PoolEnd ?one]"
    using t15 by (simp add: sample_ds sample_conn sample_fields select_sql_query_tiers)
  have pq: "pool_events (execute_query sample_env (JNum 1) (JStr ''SELECT broken'')) =
      [PoolOpen ?one, PoolQuery ?one (JStr ''SELECT broken'') [], PoolEnd ?one]"
    using t5 by (simp add: sample_conn)
  have pd: "pool_events (execute_dataset_query sample_env ?ds5
        (JStr ''SELECT * FROM dataset_5'') ?one) =
      [PoolOpen ?one,
       PoolQuery ?one (JStr ''WITH dataset_5 AS (SELECT a FROM t) SELECT * FROM dataset_5'') [],
       PoolEnd ?one]"
    using t5 by (simp add: dataset_cte_query_def sample_fields show_int_def show_nat.simps)
  have ps: "pool_events (table_schema sample_env (JNum 8) (JStr ''orders'')) =
      [PoolOpen ?eight, PoolQuery ?eight (JStr schemaQuery) [JStr ''orders''], PoolEnd ?eight]"
    using t8 by (simp add: sample_conn)
  have pt: "pool_events (connection_tables sample_env (JNum 8)) =
      [PoolOpen ?eight, PoolQuery ?eight (JStr tablesQuery) [], PoolEnd ?eight]"
    using t8 by (simp add: sample_conn)
  have w1: "with_connection_string sample_env sql_direct k = k ?one" for k
    using r1 direct(2) by (simp add: with_connection_string_def Let_def)
  have w8: "with_connection_string sample_env sql_fields k =
      BuildConnStr (conn_config sql_fields) # k ?eight" for k
    using r8 fields(2) by (simp add: with_connection_string_def Let_def)
  have ok: "pool_query sample_env c (JStr ''SELECT a FROM t'') [] =
        Inr [JObj [(''table_name'', JStr ''orders'')]]"
      "pool_query sample_env c (JStr tablesQuery) [] =
        Inr [JObj [(''table_name'', JStr ''orders'')]]"
      "pool_query sample_env c (JStr ''SELECT broken'') [] = Inl ''column broken does not exist''"
    for c
    by (simp_all add: sample_pool sample_pool_query_def tablesQuery_def unlines_def)
  have resp5: "responses (dataset_data sample_env (JNum 5) JUndef) =
      [(200, JArr [JObj [(''table_name'', JStr ''orders'')]])]"
    by (simp add: sample_run_direct [OF sample_ds(1)] sample_fields data_sql_pool_def
          select_sql_query_tiers ok)
  have resp15: "responses (dataset_data sample_env (JNum 15) JUndef) =
      [(400, message_error ''SQL query execution failed'' ''column broken does not exist'')]"
    by (simp add: sample_run_direct [OF sample_ds(11)] sample_fields data_sql_pool_def
          select_sql_query_tiers ok)
  have respq: "responses (execute_query sample_env (JNum 1) (JStr ''SELECT broken'')) =
      [(400, message_error ''SQL query execution failed'' ''column broken does not exist'')]"
    by (simp add: execute_query_def sample_conn direct w1 execute_query_pool_def ok)
  have respt: "responses (connection_tables sample_env (JNum 8)) = [(200, JArr [JStr ''orders''])]"
    by (simp add: connection_tables_def sample_conn fields w8 connection_tables_pool_def ok
          table_names_def)
  show ?thesis
    using r1 r8 p5 resp5 p15 resp15 pq respq ps pt respt pd by simp
qed

end
